theory Spec2Isabelle
  imports Complex_Main "HOL-Library.Sublist"
begin

section \<open>Values of the content script\<close>

text \<open>
  The embedding follows the latest revision of the content script (the one with the
  \<open>MONEY\<close> pattern, the scale suffixes and the \<open>replace\<close> display mode) and the
  structured-price helper that accompanies it.

  A JavaScript Number is modelled as an exact real number or one of the three values that
  are not finite. Rounding to binary64 and overflow to Infinity are not modelled: the
  arithmetic of the script is carried out exactly.
\<close>

datatype jsnum = Num real | NaN | PosInfinity | NegInfinity

fun isFinite :: "jsnum \<Rightarrow> bool" where
  "isFinite (Num x) = True"
| "isFinite NaN = False"
| "isFinite PosInfinity = False"
| "isFinite NegInfinity = False"

text \<open>
  A JavaScript string is the list of its UTF-16 code units. \<open>str\<close> reads an ASCII
  literal as such a list.
\<close>

type_synonym cu = nat

type_synonym jsstr = "cu list"

definition str :: "string \<Rightarrow> jsstr" where
  "str s = map of_char s"

text \<open>\<open>Array.prototype.join\<close> on a list of strings.\<close>

fun join :: "jsstr \<Rightarrow> jsstr list \<Rightarrow> jsstr" where
  "join sep [] = []"
| "join sep [x] = x"
| "join sep (x # y # xs) = x @ sep @ join sep (y # xs)"

text \<open>
  The decimal digits of a natural number: what a template literal prints for a count
  (a positive whole number). JavaScript switches to exponent notation from \<open>10^21\<close> on;
  the model prints all digits.
\<close>

fun numToString :: "nat \<Rightarrow> jsstr" where
  "numToString n = (if n < 10 then [48 + n] else numToString (n div 10) @ [48 + n mod 10])"

declare numToString.simps [simp del]

section \<open>Settings\<close>

text \<open>
  The process-wide \<open>settings\<close> object. \<open>loadSettings\<close> stores a Number greater than
  zero in \<open>hourlyRate\<close>, \<open>hoursPerDay\<close> and \<open>daysPerWeek\<close> or falls back to
  \<open>DEFAULT\<close>; the two schedule fields are taken as reals here.
\<close>

record settings =
  hourlyRate :: jsnum
  currencySymbol :: jsstr
  displayMode :: string
  hoursPerWeek :: real
  hoursPerDay :: real
  daysPerWeek :: real

definition DEFAULT :: settings where
  "DEFAULT = \<lparr> hourlyRate = Num 15, currencySymbol = [163], displayMode = ''inline'',
     hoursPerWeek = 40, hoursPerDay = 8, daysPerWeek = 5 \<rparr>"

section \<open>Time formatter\<close>

record timeUnit =
  short :: string
  minutes :: real

definition workMinutesPerDay :: "settings \<Rightarrow> real" where
  "workMinutesPerDay st = hoursPerDay st * 60"

definition workMinutesPerWeek :: "settings \<Rightarrow> real" where
  "workMinutesPerWeek st = workMinutesPerDay st * daysPerWeek st"

definition workMinutesPerMonth :: "settings \<Rightarrow> real" where
  "workMinutesPerMonth st = workMinutesPerWeek st * (52 / 12)"

definition workMinutesPerYear :: "settings \<Rightarrow> real" where
  "workMinutesPerYear st = workMinutesPerWeek st * 52"

definition UNITS :: "settings \<Rightarrow> timeUnit list" where
  "UNITS st =
    [ \<lparr> short = ''c'', minutes = workMinutesPerYear st * 100 \<rparr>,
      \<lparr> short = ''y'', minutes = workMinutesPerYear st \<rparr>,
      \<lparr> short = ''mo'', minutes = workMinutesPerMonth st \<rparr>,
      \<lparr> short = ''w'', minutes = workMinutesPerWeek st \<rparr>,
      \<lparr> short = ''d'', minutes = workMinutesPerDay st \<rparr>,
      \<lparr> short = ''h'', minutes = 60 \<rparr>,
      \<lparr> short = ''min'', minutes = 1 \<rparr> ]"

text \<open>
  The \<open>for (const unit of UNITS)\<close> loop of \<open>formatTimeFromMoney\<close>. Its state is the
  list \<open>parts\<close> and the variable \<open>remaining\<close>; both are returned. The source pushes
  the string \<open>`${count}${unit.short}`\<close>; the model keeps the pair of the count and the
  unit and prints it afterwards with \<open>renderPart\<close>, so that the emitted units can be
  talked about.
\<close>

fun decompose :: "timeUnit list \<Rightarrow> real \<Rightarrow> (int \<times> timeUnit) list
    \<Rightarrow> (int \<times> timeUnit) list \<times> real" where
  "decompose [] remaining parts = (parts, remaining)"
| "decompose (unit # units) remaining parts =
    (if length parts \<ge> 3 then (parts, remaining)
     else if minutes unit \<le> 0 then decompose units remaining parts
     else let count = \<lfloor>remaining / minutes unit\<rfloor> in
       if count > 0
       then decompose units (remaining - of_int count * minutes unit) (parts @ [(count, unit)])
       else decompose units remaining parts)"

definition totalMinutes :: "real \<Rightarrow> real \<Rightarrow> real" where
  "totalMinutes amount rate = (amount / rate) * 60"

definition timeParts :: "settings \<Rightarrow> real \<Rightarrow> real \<Rightarrow> (int \<times> timeUnit) list" where
  "timeParts st amount rate =
     fst (decompose (UNITS st) (of_int \<lfloor>totalMinutes amount rate\<rfloor>) [])"

definition renderPart :: "int \<times> timeUnit \<Rightarrow> jsstr" where
  "renderPart p = numToString (nat (fst p)) @ str (short (snd p))"

text \<open>\<open>formatTimeFromMoney(amount, hourlyRate)\<close>; \<open>None\<close> is \<open>null\<close>.\<close>

fun formatTimeFromMoney :: "settings \<Rightarrow> jsnum \<Rightarrow> jsnum \<Rightarrow> jsstr option" where
  "formatTimeFromMoney st (Num amount) (Num rate) =
     (if amount \<le> 0 \<or> rate \<le> 0 then None
      else let parts = timeParts st amount rate in
        if length parts = 0 then Some (str ''<1m'')
        else Some (join (str '' '') (map renderPart parts)))"
| "formatTimeFromMoney st amount rate = None"


text \<open>The comparison \<open>x <= 0\<close> on Numbers (false for \<open>NaN\<close>).\<close>

fun lessEqZero :: "jsnum \<Rightarrow> bool" where
  "lessEqZero (Num x) = (x \<le> 0)"
| "lessEqZero NaN = False"
| "lessEqZero PosInfinity = False"
| "lessEqZero NegInfinity = True"

subsection \<open>Properties of the decomposition loop\<close>








lemma decompose_zero: "fst (decompose us 0 parts) = parts"
  by (induction us arbitrary: parts) (auto simp: Let_def)

lemmas schedule_defs = UNITS_def DEFAULT_def workMinutesPerYear_def workMinutesPerMonth_def
  workMinutesPerWeek_def workMinutesPerDay_def







lemma numToString_nonempty: "numToString n \<noteq> []"
  by (subst numToString.simps) simp

lemma join_nonempty: "xs \<noteq> [] \<Longrightarrow> \<forall>x\<in>set xs. x \<noteq> [] \<Longrightarrow> join sep xs \<noteq> []"
  by (induction sep xs rule: join.induct) auto

section \<open>Regular expressions\<close>

text \<open>
  The money pattern is a JavaScript regular expression; its matcher is modelled here.
  The classes for digits, word characters and white space are those of a pattern without the
  \<open>u\<close> flag: ASCII digits, ASCII word characters, and the white space and line
  terminator code units.
\<close>

definition isDigit :: "cu \<Rightarrow> bool" where
  "isDigit c = (48 \<le> c \<and> c \<le> 57)"

definition isWordChar :: "cu \<Rightarrow> bool" where
  "isWordChar c = ((97 \<le> c \<and> c \<le> 122) \<or> (65 \<le> c \<and> c \<le> 90) \<or> isDigit c \<or> c = 95)"

definition isWhiteSpace :: "cu \<Rightarrow> bool" where
  "isWhiteSpace c = (c \<in> set [9, 10, 11, 12, 13, 32, 160, 5760, 8232, 8233, 8239, 8287, 12288, 65279]
     \<or> (8192 \<le> c \<and> c \<le> 8202))"

text \<open>
  The \<open>i\<close> flag compares canonicalized code units. Every letter of the money pattern
  is ASCII, and without the \<open>u\<close> flag a code unit from 128 on never canonicalizes to
  an ASCII one, so upper-casing \<open>a\<close>..\<open>z\<close> decides every comparison the pattern makes.
\<close>

definition canonicalize :: "cu \<Rightarrow> cu" where
  "canonicalize c = (if 97 \<le> c \<and> c \<le> 122 then c - 32 else c)"

text \<open>
  An atom matches one code unit: \<open>Chr\<close> exactly, \<open>ChrI\<close> up to case. A \<open>Class\<close>
  is a list of atoms, \<open>Rep lo hi r\<close> is the greedy quantifier \<open>r{lo,hi}\<close> (\<open>None\<close>
  for no upper bound), \<open>Group n r\<close> is the named capture group \<open>(?<n>r)\<close> and
  \<open>WordBoundary\<close> is the word-boundary assertion.
\<close>

datatype atom = Digit | WhiteSpace | Chr cu | ChrI cu

fun atomMatches :: "atom \<Rightarrow> cu \<Rightarrow> bool" where
  "atomMatches Digit x = isDigit x"
| "atomMatches WhiteSpace x = isWhiteSpace x"
| "atomMatches (Chr c) x = (x = c)"
| "atomMatches (ChrI c) x = (canonicalize x = canonicalize c)"

datatype regex =
    Eps
  | Class "atom list"
  | WordBoundary
  | Seq regex regex
  | Alt regex regex
  | Rep nat "nat option" regex
  | Group string regex

text \<open>
  Captures are an association list, the latest capture first. A group that did not take
  part in the match has no entry (\<open>undefined\<close> in JavaScript).
\<close>

type_synonym captures = "(string \<times> jsstr) list"

fun groupNames :: "regex \<Rightarrow> string list" where
  "groupNames Eps = []"
| "groupNames (Class as) = []"
| "groupNames WordBoundary = []"
| "groupNames (Seq r1 r2) = groupNames r1 @ groupNames r2"
| "groupNames (Alt r1 r2) = groupNames r1 @ groupNames r2"
| "groupNames (Rep lo hi r) = groupNames r"
| "groupNames (Group n r) = n # groupNames r"

definition clearGroups :: "regex \<Rightarrow> captures \<Rightarrow> captures" where
  "clearGroups r c = filter (\<lambda>p. fst p \<notin> set (groupNames r)) c"

text \<open>
  \<open>String.prototype.slice(i, j)\<close> for \<open>0 \<le> i \<le> j\<close>.
\<close>

definition slice :: "jsstr \<Rightarrow> nat \<Rightarrow> nat \<Rightarrow> jsstr" where
  "slice s i j = take (j - i) (drop i s)"

definition isWordBoundary :: "jsstr \<Rightarrow> nat \<Rightarrow> bool" where
  "isWordBoundary s i =
     ((0 < i \<and> i - 1 < length s \<and> isWordChar (s ! (i - 1))) \<noteq> (i < length s \<and> isWordChar (s ! i)))"

text \<open>
  \<open>depth\<close> and \<open>repMin\<close> only serve the termination proof of the matcher.
\<close>

fun depth :: "regex \<Rightarrow> nat" where
  "depth Eps = 0"
| "depth (Class as) = 0"
| "depth WordBoundary = 0"
| "depth (Seq r1 r2) = Suc (depth r1 + depth r2)"
| "depth (Alt r1 r2) = Suc (depth r1 + depth r2)"
| "depth (Rep lo hi r) = Suc (depth r)"
| "depth (Group n r) = Suc (depth r)"

fun repMin :: "regex \<Rightarrow> nat" where
  "repMin (Rep lo hi r) = lo"
| "repMin r = 0"

text \<open>
  The backtracking matcher. \<open>rmatch r s (i, c)\<close> lists, in the order in which
  backtracking would try them, the states (end index and captures) in which \<open>r\<close> can
  match \<open>s\<close> from index \<open>i\<close> with captures \<open>c\<close>; the first element is the match
  JavaScript reports. A sequence continues from every state of its first part, an
  alternation tries its left part first, and a greedy quantifier tries one more
  iteration before stopping. As in the RepeatMatcher of the language specification, the
  captures of the quantified part are cleared before each iteration, and an iteration
  that is not required and consumes nothing is rejected; since a state never moves
  backwards nor beyond the end of the input, that check is written \<open>i < j \<and> j \<le> length s\<close>.
\<close>

function rmatch :: "regex \<Rightarrow> jsstr \<Rightarrow> nat \<times> captures \<Rightarrow> (nat \<times> captures) list" where
  "rmatch Eps s st = [st]"
| "rmatch (Class as) s (i, c) =
     (if i < length s \<and> (\<exists>a \<in> set as. atomMatches a (s ! i)) then [(i + 1, c)] else [])"
| "rmatch WordBoundary s (i, c) = (if isWordBoundary s i then [(i, c)] else [])"
| "rmatch (Seq r1 r2) s st = concat (map (\<lambda>st'. rmatch r2 s st') (rmatch r1 s st))"
| "rmatch (Alt r1 r2) s st = rmatch r1 s st @ rmatch r2 s st"
| "rmatch (Group n r) s (i, c) =
     map (\<lambda>(j, c'). (j, (n, slice s i j) # c')) (rmatch r s (i, c))"
| "rmatch (Rep lo hi r) s (i, c) =
     (if hi = Some 0 then [(i, c)]
      else concat (map
              (\<lambda>(j, c'). if lo = 0 \<and> \<not> (i < j \<and> j \<le> length s) then []
                 else rmatch (Rep (lo - 1) (map_option (\<lambda>h. h - 1) hi) r) s (j, c'))
              (rmatch r s (i, clearGroups r c)))
           @ (if lo = 0 then [(i, c)] else []))"
  by pat_completeness auto
termination
  by (relation "measures [\<lambda>(r, s, i, c). depth r, \<lambda>(r, s, i, c). repMin r,
        \<lambda>(r, s, i, c). length s - i]") auto

text \<open>
  The result of \<open>RegExp.prototype.exec\<close> on a global pattern: \<open>index\<close>, the new
  \<open>lastIndex\<close> of the pattern, the matched text \<open>match[0]\<close> and the named groups.
  \<open>exec r s i\<close> runs the pattern with \<open>lastIndex = i\<close>: it tries every start index from
  \<open>i\<close> up to the length of the input and reports the first index where the pattern
  matches; \<open>None\<close> is \<open>null\<close>.
\<close>

record regexMatch =
  index :: nat
  lastIndex :: nat
  matched :: jsstr
  groups :: captures

function exec :: "regex \<Rightarrow> jsstr \<Rightarrow> nat \<Rightarrow> regexMatch option" where
  "exec r s i =
     (if i > length s then None
      else case rmatch r s (i, []) of
        [] \<Rightarrow> exec r s (i + 1)
      | (j, c) # _ \<Rightarrow> Some \<lparr> index = i, lastIndex = j, matched = slice s i j, groups = c \<rparr>)"
  by pat_completeness auto
termination
  by (relation "measure (\<lambda>(r, s, i). length s + 1 - i)") auto

text \<open>
  The money pattern of the script, built as its source builds it (flags \<open>gi\<close>):
  \<open>chars w\<close> is the word \<open>w\<close> matched up to case and \<open>alts\<close> an alternation.
\<close>

definition chars :: "string \<Rightarrow> regex" where
  "chars w = foldr (\<lambda>ch r. Seq (Class [ChrI (of_char ch)]) r) w Eps"

fun alts :: "regex list \<Rightarrow> regex" where
  "alts [] = Class []"
| "alts [r] = r"
| "alts (r # rs) = Alt r (alts rs)"

definition SYMBOLS :: regex where
  "SYMBOLS = Class [Chr 36, Chr 163, Chr 8364]"

definition digit :: regex where
  "digit = Class [Digit]"

definition NUMBER :: regex where
  "NUMBER = Seq
     (Alt (Seq (Rep 1 (Some 3) digit) (Rep 1 None (Seq (Class [Chr 44]) (Rep 3 (Some 3) digit))))
          (Rep 1 None digit))
     (Rep 0 (Some 1) (Seq (Class [Chr 46]) (Rep 1 None digit)))"

definition SCALE :: regex where
  "SCALE = Seq WordBoundary (Seq
     (alts (map chars [''trillion'', ''tn'', ''t'', ''billion'', ''bn'', ''b'',
        ''million'', ''mn'', ''m'', ''thousand'', ''k'']))
     WordBoundary)"

definition CODES :: regex where
  "CODES = Seq WordBoundary (Seq (alts (map chars [''USD'', ''GBP'', ''EUR''])) WordBoundary)"

definition spaces :: regex where
  "spaces = Rep 0 None (Class [WhiteSpace])"

definition opt :: "regex \<Rightarrow> regex" where
  "opt r = Rep 0 (Some 1) r"

definition SYMBOL_FIRST :: regex where
  "SYMBOL_FIRST = Seq (Group ''sym'' SYMBOLS) (Seq spaces (Seq (Group ''num1'' NUMBER)
     (Seq spaces (opt (Group ''suf1'' SCALE)))))"

definition CODE_LAST :: regex where
  "CODE_LAST = Seq (Group ''num2'' NUMBER) (Seq spaces (Seq (opt (Group ''suf2'' SCALE))
     (Seq spaces (Group ''code1'' CODES))))"

definition CODE_FIRST :: regex where
  "CODE_FIRST = Seq (Group ''code2'' CODES) (Seq spaces (Seq (Group ''num3'' NUMBER)
     (Seq spaces (opt (Group ''suf3'' SCALE)))))"

definition MONEY_regex :: regex where
  "MONEY_regex = Alt SYMBOL_FIRST (Alt CODE_LAST CODE_FIRST)"

subsection \<open>Properties of the matcher\<close>

text \<open>
  The equation of the quantifier and that of \<open>exec\<close> call themselves; they are unfolded
  on demand only.
\<close>

declare rmatch.simps(7) [simp del]

declare exec.simps [simp del]



lemma in_rmatch_Rep:
  "x \<in> set (rmatch (Rep lo hi r) s (i, c)) \<longleftrightarrow>
     (if hi = Some 0 then x = (i, c)
      else (\<exists>j1 c1. (j1, c1) \<in> set (rmatch r s (i, clearGroups r c))
              \<and> \<not> (lo = 0 \<and> \<not> (i < j1 \<and> j1 \<le> length s))
              \<and> x \<in> set (rmatch (Rep (lo - 1) (map_option (\<lambda>h. h - 1) hi) r) s (j1, c1)))
           \<or> (lo = 0 \<and> x = (i, c)))"
  by (subst rmatch.simps(7)) (auto split: if_splits)

lemma rmatch_bounds:
  "(j, c') \<in> set (rmatch r s st) \<Longrightarrow> fst st \<le> j \<and> (fst st \<le> length s \<longrightarrow> j \<le> length s)"
proof (induction r s st arbitrary: j c' rule: rmatch.induct)
  case (4 r1 r2 s st)
  show ?case using 4 by fastforce
next
  case (7 lo hi r s i c)
  show ?case
  proof (cases "hi = Some 0")
    case True
    with "7.prems" show ?thesis by (simp add: in_rmatch_Rep)
  next
    case False
    from "7.prems" False consider
      (again) j1 c1 where "(j1, c1) \<in> set (rmatch r s (i, clearGroups r c))"
        "\<not> (lo = 0 \<and> \<not> (i < j1 \<and> j1 \<le> length s))"
        "(j, c') \<in> set (rmatch (Rep (lo - 1) (map_option (\<lambda>h. h - 1) hi) r) s (j1, c1))"
      | (stop) "j = i"
      by (auto simp: in_rmatch_Rep)
    then show ?thesis
    proof cases
      case again
      from "7.IH"(1)[OF False again(1)]
        "7.IH"(2)[OF False again(1) refl again(2) again(3)]
      show ?thesis by auto
    next
      case stop
      then show ?thesis by simp
    qed
  qed
qed (auto split: if_splits)

text \<open>
  Hence the check of the quantifier rejects exactly the iterations that consume nothing.
\<close>

lemma rmatch_empty_check:
  "i \<le> length s \<Longrightarrow> (j, c') \<in> set (rmatch r s (i, c)) \<Longrightarrow> (i < j \<and> j \<le> length s) \<longleftrightarrow> j \<noteq> i"
  using rmatch_bounds[of j c' r s "(i, c)"] by auto

text \<open>
  A lower bound on the number of code units a match consumes.
\<close>

fun minLen :: "regex \<Rightarrow> nat" where
  "minLen Eps = 0"
| "minLen (Class as) = 1"
| "minLen WordBoundary = 0"
| "minLen (Seq r1 r2) = minLen r1 + minLen r2"
| "minLen (Alt r1 r2) = min (minLen r1) (minLen r2)"
| "minLen (Rep lo hi r) = (case hi of None \<Rightarrow> lo | Some h \<Rightarrow> min lo h) * minLen r"
| "minLen (Group n r) = minLen r"

lemma rmatch_minLen:
  "(j, c') \<in> set (rmatch r s st) \<Longrightarrow> fst st + minLen r \<le> j"
proof (induction r s st arbitrary: j c' rule: rmatch.induct)
  case (4 r1 r2 s st)
  show ?case using 4 by fastforce
next
  case (7 lo hi r s i c)
  show ?case
  proof (cases "hi = Some 0")
    case True
    with "7.prems" show ?thesis by (simp add: in_rmatch_Rep)
  next
    case False
    from "7.prems" False consider
      (again) j1 c1 where "(j1, c1) \<in> set (rmatch r s (i, clearGroups r c))"
        "\<not> (lo = 0 \<and> \<not> (i < j1 \<and> j1 \<le> length s))"
        "(j, c') \<in> set (rmatch (Rep (lo - 1) (map_option (\<lambda>h. h - 1) hi) r) s (j1, c1))"
      | (stop) "lo = 0" "j = i"
      by (auto simp: in_rmatch_Rep)
    then show ?thesis
    proof cases
      case again
      have a: "i + minLen r \<le> j1" using "7.IH"(1)[OF False again(1)] by simp
      have b: "j1 + minLen (Rep (lo - 1) (map_option (\<lambda>h. h - 1) hi) r) \<le> j"
        using "7.IH"(2)[OF False again(1) refl again(2) again(3)] by simp
      have c: "minLen (Rep lo hi r) \<le> minLen r + minLen (Rep (lo - 1) (map_option (\<lambda>h. h - 1) hi) r)"
      proof (cases hi)
        case None
        then show ?thesis by (cases lo) auto
      next
        case (Some h)
        with False have "h \<noteq> 0" by simp
        then have "min lo h \<le> Suc (min (lo - 1) (h - 1))" by auto
        then have "min lo h * minLen r \<le> Suc (min (lo - 1) (h - 1)) * minLen r"
          by (rule mult_le_mono1)
        then show ?thesis using Some by simp
      qed
      show ?thesis using a b c by simp
    next
      case stop
      then show ?thesis by (simp split: option.splits)
    qed
  qed
next
  case (5 r1 r2 s st)
  from "5.prems" have "(j, c') \<in> set (rmatch r1 s st) \<or> (j, c') \<in> set (rmatch r2 s st)" by simp
  then show ?case using "5.IH"(1)[of j c'] "5.IH"(2)[of j c'] by (auto simp: min_def)
qed (auto split: if_splits)

lemmas regex_defs = MONEY_regex_def SYMBOL_FIRST_def CODE_LAST_def CODE_FIRST_def opt_def spaces_def
  CODES_def SCALE_def NUMBER_def digit_def SYMBOLS_def chars_def

lemma minLen_MONEY: "minLen MONEY_regex = 2"
  by (simp add: regex_defs)

lemma exec_Some:
  "exec r s i = Some m \<Longrightarrow>
     i \<le> index m \<and> index m + minLen r \<le> lastIndex m \<and> lastIndex m \<le> length s
     \<and> matched m = slice s (index m) (lastIndex m)
     \<and> (lastIndex m, groups m) \<in> set (rmatch r s (index m, []))"
proof (induction r s i rule: exec.induct)
  case (1 r s i)
  show ?case
  proof (cases "i > length s")
    case True
    with "1.prems" show ?thesis by (simp add: exec.simps)
  next
    case False
    show ?thesis
    proof (cases "rmatch r s (i, [])")
      case Nil
      with False "1.prems" have "exec r s (i + 1) = Some m" by (simp add: exec.simps[of r s i])
      from "1.IH"[OF False Nil this] show ?thesis by simp
    next
      case (Cons x xs)
      obtain j c where x: "x = (j, c)" by (cases x)
      from Cons x False "1.prems"
      have m: "m = \<lparr> index = i, lastIndex = j, matched = slice s i j, groups = c \<rparr>"
        by (simp add: exec.simps[of r s i])
      have mem: "(j, c) \<in> set (rmatch r s (i, []))" using Cons x by simp
      from rmatch_bounds[OF mem] rmatch_minLen[OF mem] False mem show ?thesis
        by (simp add: m)
    qed
  qed
qed

lemma exec_MONEY_progress:
  "exec MONEY_regex s i = Some m \<Longrightarrow> i < lastIndex m \<and> i \<le> length s"
  using exec_Some[of MONEY_regex s i m] by (simp add: minLen_MONEY)

text \<open>
  The sequence of matches that the loop \<open>while ((match = MONEY.regex.exec(text)) !== null)\<close>
  sees: each \<open>exec\<close> starts at the \<open>lastIndex\<close> the previous one left. The loop ends
  because a match of the money pattern is never empty.
\<close>

function execAll :: "jsstr \<Rightarrow> nat \<Rightarrow> regexMatch list" where
  "execAll s i = (case exec MONEY_regex s i of
      None \<Rightarrow> []
    | Some m \<Rightarrow> m # execAll s (lastIndex m))"
  by pat_completeness auto
termination
proof (relation "measure (\<lambda>(s, i). length s + 1 - i)")
  show "wf (measure (\<lambda>(s, i). length s + 1 - i))" by simp
next
  fix s i m
  assume "exec MONEY_regex s i = Some m"
  from exec_MONEY_progress[OF this]
  show "((s, lastIndex m), (s, i)) \<in> measure (\<lambda>(s, i). length s + 1 - i)" by simp arith
qed

declare execAll.simps [simp del]

section \<open>Amounts\<close>

text \<open>
  \<open>parseFloat\<close>: leading white space is skipped, then the longest prefix that is a
  decimal literal (sign, \<open>Infinity\<close>, digits, fraction, exponent) is read; without such a
  prefix the result is \<open>NaN\<close>. The value is exact and zero has no sign.
\<close>

definition digitsValue :: "jsstr \<Rightarrow> nat" where
  "digitsValue ds = foldl (\<lambda>a d. 10 * a + (d - 48)) 0 ds"

definition exponentPart :: "jsstr \<Rightarrow> int" where
  "exponentPart t = (case t of
      [] \<Rightarrow> 0
    | e # u \<Rightarrow>
        if e = 101 \<or> e = 69 then
          (let neg = (u \<noteq> [] \<and> hd u = 45);
               v = (if u \<noteq> [] \<and> (hd u = 43 \<or> hd u = 45) then tl u else u);
               ds = takeWhile isDigit v
           in if ds = [] then 0 else if neg then - int (digitsValue ds) else int (digitsValue ds))
        else 0)"

definition parseFloat :: "jsstr \<Rightarrow> jsnum" where
  "parseFloat input =
     (let t = dropWhile isWhiteSpace input;
          neg = (t \<noteq> [] \<and> hd t = 45);
          u = (if t \<noteq> [] \<and> (hd t = 43 \<or> hd t = 45) then tl t else t)
      in if take 8 u = str ''Infinity'' then (if neg then NegInfinity else PosInfinity)
         else let ip = takeWhile isDigit u;
                  r1 = dropWhile isDigit u;
                  dot = (r1 \<noteq> [] \<and> hd r1 = 46);
                  fp = (if dot then takeWhile isDigit (tl r1) else []);
                  r2 = (if dot then dropWhile isDigit (tl r1) else r1)
              in if ip = [] \<and> fp = [] then NaN
                 else Num ((if neg then - 1 else 1)
                        * (real (digitsValue ip) + real (digitsValue fp) / 10 ^ length fp)
                        * 10 powi exponentPart r2))"

text \<open>
  \<open>SCALE_MAP\<close>, \<open>multiplier\<close> and \<open>amountFromMatch\<close>. \<open>firstTruthy\<close> is the chain
  \<open>a || b || c || ""\<close> over captures, where a missing or empty capture is falsy.
  \<open>toLowerCase\<close> is modelled on ASCII letters, the only letters a suffix can hold.
\<close>

definition SCALE_MAP :: "(jsstr \<times> real) list" where
  "SCALE_MAP =
    [(str ''k'', 1000), (str ''thousand'', 1000),
     (str ''m'', 1000000), (str ''mn'', 1000000), (str ''million'', 1000000),
     (str ''b'', 1000000000), (str ''bn'', 1000000000), (str ''billion'', 1000000000),
     (str ''t'', 1000000000000), (str ''tn'', 1000000000000), (str ''trillion'', 1000000000000)]"

definition toLowerCase :: "jsstr \<Rightarrow> jsstr" where
  "toLowerCase s = map (\<lambda>c. if 65 \<le> c \<and> c \<le> 90 then c + 32 else c) s"

definition multiplier :: "jsstr \<Rightarrow> real" where
  "multiplier suf =
     (if suf = [] then 1
      else case map_of SCALE_MAP (toLowerCase suf) of Some v \<Rightarrow> v | None \<Rightarrow> 1)"

fun firstTruthy :: "jsstr option list \<Rightarrow> jsstr" where
  "firstTruthy [] = []"
| "firstTruthy (None # xs) = firstTruthy xs"
| "firstTruthy (Some x # xs) = (if x = [] then firstTruthy xs else x)"

definition numCapture :: "regexMatch \<Rightarrow> jsstr" where
  "numCapture m =
     firstTruthy [map_of (groups m) ''num1'', map_of (groups m) ''num2'', map_of (groups m) ''num3'']"

definition numStr :: "regexMatch \<Rightarrow> jsstr" where
  "numStr m = filter (\<lambda>c. c \<noteq> 44) (numCapture m)"

definition sufStr :: "regexMatch \<Rightarrow> jsstr" where
  "sufStr m =
     firstTruthy [map_of (groups m) ''suf1'', map_of (groups m) ''suf2'', map_of (groups m) ''suf3'']"

definition amountFromMatch :: "regexMatch \<Rightarrow> jsnum" where
  "amountFromMatch m =
     (case parseFloat (numStr m) of
        Num base \<Rightarrow> Num (base * multiplier (sufStr m))
      | _ \<Rightarrow> NaN)"

section \<open>Annotation builder\<close>

text \<open>
  A node of the document tree is a text node or an element with its tag name, class
  list, attributes and children. Node identity is not modelled.
\<close>

record element =
  tagName :: string
  classList :: "string list"
  attributes :: "(string \<times> jsstr) list"

datatype node = Text jsstr | Element element "node list"

text \<open>
  Whether \<open>fullMatch\<close> ends in white space (the test that decides the leading space
  of the inline annotation).
\<close>

definition endsWithSpace :: "jsstr \<Rightarrow> bool" where
  "endsWithSpace s = (s \<noteq> [] \<and> isWhiteSpace (last s))"

text \<open>
  The wrapper \<open>span\<close> built for a match whose time string is truthy, by display mode.
\<close>

definition wrapper :: "settings \<Rightarrow> jsstr \<Rightarrow> jsstr \<Rightarrow> node" where
  "wrapper st fullMatch timeStr =
     (let moneyText = Text fullMatch;
          el = \<lparr> tagName = ''SPAN'', classList = [''mt-wrapper''],
                 attributes = [(''data-mt-processed'', str ''true'')] \<rparr>
      in if displayMode st = ''tooltip''
         then Element (el\<lparr> attributes := attributes el @ [(''title'', timeStr)] \<rparr>) [moneyText]
         else if displayMode st = ''inline''
         then Element el [moneyText,
                Element \<lparr> tagName = ''SPAN'', classList = [''mt-annotation''], attributes = [] \<rparr>
                  [Text ((if endsWithSpace fullMatch then [] else str '' '')
                         @ str ''('' @ timeStr @ str '') '')]]
         else if displayMode st = ''replace''
         then Element el [Text timeStr]
         else Element el [])"

text \<open>
  The body of the loop of \<open>buildAnnotatedFragment\<close>. The accumulator is the list of
  children of the fragment and the variable \<open>lastIndex\<close>.
\<close>

definition addMatch :: "settings \<Rightarrow> jsstr \<Rightarrow> regexMatch \<Rightarrow> node list \<times> nat \<Rightarrow> node list \<times> nat" where
  "addMatch st textNodeValue m acc =
     (let frag = fst acc; lastIdx = snd acc;
          fullMatch = matched m;
          amount = amountFromMatch m;
          matchStart = index m;
          matchEnd = lastIndex m;
          frag1 = (if matchStart > lastIdx
                   then frag @ [Text (slice textNodeValue lastIdx matchStart)] else frag);
          timeStr = formatTimeFromMoney st amount (hourlyRate st)
      in (case timeStr of
            None \<Rightarrow> frag1 @ [Text fullMatch]
          | Some t \<Rightarrow> if t = [] then frag1 @ [Text fullMatch] else frag1 @ [wrapper st fullMatch t],
          matchEnd))"

text \<open>
  The loop itself. \<open>MONEY.regex.lastIndex\<close> is the third argument; the local variable
  \<open>lastIndex\<close> travels in the accumulator.
\<close>

function buildLoop :: "settings \<Rightarrow> jsstr \<Rightarrow> nat \<Rightarrow> node list \<times> nat \<Rightarrow> node list \<times> nat" where
  "buildLoop st textNodeValue regexLastIndex acc =
     (case exec MONEY_regex textNodeValue regexLastIndex of
        None \<Rightarrow> acc
      | Some m \<Rightarrow> buildLoop st textNodeValue (lastIndex m) (addMatch st textNodeValue m acc))"
  by pat_completeness auto
termination
proof (relation "measure (\<lambda>(st, s, i, acc). length s + 1 - i)")
  show "wf (measure (\<lambda>(st :: settings, s :: jsstr, i :: nat, acc :: node list \<times> nat). length s + 1 - i))"
    by simp
next
  fix st :: settings and s i m and acc :: "node list \<times> nat"
  assume "exec MONEY_regex s i = Some m"
  from exec_MONEY_progress[OF this]
  show "((st, s, lastIndex m, addMatch st s m acc), (st, s, i, acc))
          \<in> measure (\<lambda>(st, s, i, acc). length s + 1 - i)" by simp arith
qed

declare buildLoop.simps [simp del]

text \<open>
  The spans \<open>[index, lastIndex)\<close> of the matches the loop sees from offset 0.
\<close>

definition matchSpans :: "jsstr \<Rightarrow> (nat \<times> nat) list" where
  "matchSpans s = map (\<lambda>m. (index m, lastIndex m)) (execAll s 0)"

definition buildAnnotatedFragment :: "settings \<Rightarrow> jsstr \<Rightarrow> node list" where
  "buildAnnotatedFragment st textNodeValue =
     (let r = buildLoop st textNodeValue 0 ([], 0); frag = fst r; lastIdx = snd r
      in if lastIdx < length textNodeValue then frag @ [Text (drop lastIdx textNodeValue)] else frag)"

fun textContent :: "node \<Rightarrow> jsstr" where
  "textContent (Text t) = t"
| "textContent (Element e kids) = concat (map textContent kids)"

section \<open>Tree mutator and scan scheduler\<close>

definition SKIP_TAGS :: "string list" where
  "SKIP_TAGS = [''SCRIPT'', ''STYLE'', ''NOSCRIPT'', ''IFRAME'', ''CODE'', ''PRE'', ''TEXTAREA'', ''INPUT'']"

text \<open>
  \<open>closest attr chain\<close> is \<open>parent.closest("[attr]")\<close>, where \<open>chain\<close> lists the parent
  element and its ancestors, nearest first.
\<close>

definition hasAttribute :: "element \<Rightarrow> string \<Rightarrow> bool" where
  "hasAttribute e n = (map_of (attributes e) n \<noteq> None)"

definition closest :: "string \<Rightarrow> element list \<Rightarrow> bool" where
  "closest attr chain = (\<exists>e \<in> set chain. hasAttribute e attr)"

definition trim :: "jsstr \<Rightarrow> jsstr" where
  "trim s = rev (dropWhile isWhiteSpace (rev (dropWhile isWhiteSpace s)))"

text \<open>
  \<open>regex.test(text)\<close> with \<open>lastIndex = 0\<close>.
\<close>

definition test :: "regex \<Rightarrow> jsstr \<Rightarrow> bool" where
  "test r s = (exec r s 0 \<noteq> None)"

text \<open>
  \<open>processTextNode\<close>: \<open>None\<close> when the function returns without touching the tree,
  \<open>Some frag\<close> when it calls \<open>parent.replaceChild(frag, node)\<close>.
\<close>

fun processTextNode :: "settings \<Rightarrow> element list \<Rightarrow> node \<Rightarrow> node list option" where
  "processTextNode st ancestors (Element e kids) = None"
| "processTextNode st [] (Text text) = None"
| "processTextNode st (parent # outer) (Text text) =
     (if tagName parent \<in> set SKIP_TAGS then None
      else if closest ''data-mt-processed'' (parent # outer) then None
      else if closest ''data-mt-ignore'' (parent # outer) then None
      else if \<not> test MONEY_regex text then None
      else let frag = buildAnnotatedFragment st text in
        if length frag > 0 then Some frag else None)"

text \<open>
  The filter of the tree walker of \<open>processDocument\<close>, and the list \<open>textNodes\<close> it
  collects below a node (the text of every accepted text node, in document order).
\<close>

fun acceptNode :: "element list \<Rightarrow> jsstr \<Rightarrow> bool" where
  "acceptNode [] nodeValue = False"
| "acceptNode (parent # outer) nodeValue =
     (if nodeValue = [] \<or> trim nodeValue = [] then False
      else if tagName parent \<in> set SKIP_TAGS then False
      else if closest ''data-mt-processed'' (parent # outer) then False
      else True)"

fun textNodes :: "element list \<Rightarrow> node \<Rightarrow> jsstr list" where
  "textNodes ancestors (Text t) = (if acceptNode ancestors t then [t] else [])"
| "textNodes ancestors (Element e kids) = concat (map (textNodes (e # ancestors)) kids)"

text \<open>
  \<open>processDocument\<close> collects the accepted text nodes and then hands each to
  \<open>processTextNode\<close>. A replacement puts the fragment where the text node stood and
  changes no ancestor, so the checks of \<open>processTextNode\<close> see the same ancestors as the
  walker did; the model therefore rewrites each accepted text node in place, in one
  traversal. The second component counts the calls of \<open>replaceChild\<close>. The walker
  never returns its root, so a root that is a text node is left alone.
\<close>

fun scan :: "settings \<Rightarrow> element list \<Rightarrow> node \<Rightarrow> node list \<times> nat" where
  "scan st ancestors (Text t) =
     (if acceptNode ancestors t
      then (case processTextNode st ancestors (Text t) of
              None \<Rightarrow> ([Text t], 0)
            | Some frag \<Rightarrow> (frag, 1))
      else ([Text t], 0))"
| "scan st ancestors (Element e kids) =
     ([Element e (concat (map (\<lambda>k. fst (scan st (e # ancestors) k)) kids))],
      sum_list (map (\<lambda>k. snd (scan st (e # ancestors) k)) kids))"

fun processDocument :: "settings \<Rightarrow> element list \<Rightarrow> node \<Rightarrow> node \<times> nat" where
  "processDocument st ancestors (Text t) = (Text t, 0)"
| "processDocument st ancestors (Element e kids) =
     (Element e (concat (map (\<lambda>k. fst (scan st (e # ancestors) k)) kids)),
      sum_list (map (\<lambda>k. snd (scan st (e # ancestors) k)) kids))"

fun walkerNodes :: "element list \<Rightarrow> node \<Rightarrow> jsstr list" where
  "walkerNodes ancestors (Text t) = []"
| "walkerNodes ancestors (Element e kids) = concat (map (textNodes (e # ancestors)) kids)"

section \<open>Structured prices\<close>

text \<open>
  \<open>el.querySelector(".cls")\<close>: the first descendant element, in document order, whose
  class list holds \<open>cls\<close>.
\<close>

fun subElements :: "node \<Rightarrow> node list" where
  "subElements (Text t) = []"
| "subElements (Element e kids) =
     concat (map (\<lambda>k. case k of Text t \<Rightarrow> [] | Element e' kids' \<Rightarrow> k # subElements k) kids)"

fun hasClass :: "string \<Rightarrow> node \<Rightarrow> bool" where
  "hasClass cls (Text t) = False"
| "hasClass cls (Element e kids) = (cls \<in> set (classList e))"

definition querySelector :: "string \<Rightarrow> node \<Rightarrow> node option" where
  "querySelector cls el = find (hasClass cls) (subElements el)"

text \<open>
  \<open>processStructuredPrice\<close>, with its pattern for the first run of digits, commas and dots. \<open>priceText\<close> is the
  string the price is read from and \<open>priceAmount\<close> the amount parsed from it. The result
  is \<open>None\<close> when the function returns early and the annotated element otherwise. The
  formatter is the one of the latest content script.
\<close>

definition PRICE_regex :: regex where
  "PRICE_regex = Group ''1'' (Rep 1 None (Class [Digit, Chr 44, Chr 46]))"

definition subText :: "string \<Rightarrow> node \<Rightarrow> jsstr" where
  "subText cls el = (case querySelector cls el of None \<Rightarrow> [] | Some n \<Rightarrow> textContent n)"

definition priceText :: "node \<Rightarrow> jsstr option" where
  "priceText el =
     (if trim (subText ''a-offscreen'' el) \<noteq> [] then Some (trim (subText ''a-offscreen'' el))
      else let symbol = subText ''a-price-symbol'' el;
               whole = subText ''a-price-whole'' el;
               fraction = subText ''a-price-fraction'' el
           in if whole = [] then None else Some (symbol @ whole @ fraction))"

definition priceAmount :: "jsstr \<Rightarrow> jsnum option" where
  "priceAmount text =
     (case exec PRICE_regex text 0 of
        None \<Rightarrow> None
      | Some m \<Rightarrow> map_option (\<lambda>g. parseFloat (filter (\<lambda>c. c \<noteq> 44) g)) (map_of (groups m) ''1''))"

fun setAttribute :: "string \<Rightarrow> jsstr \<Rightarrow> (string \<times> jsstr) list \<Rightarrow> (string \<times> jsstr) list" where
  "setAttribute n v [] = [(n, v)]"
| "setAttribute n v (p # ps) = (if fst p = n then (n, v) # ps else p # setAttribute n v ps)"

fun processStructuredPrice :: "settings \<Rightarrow> element list \<Rightarrow> node \<Rightarrow> node option" where
  "processStructuredPrice st ancestors (Text t) = None"
| "processStructuredPrice st ancestors (Element e kids) =
     (if closest ''data-mt-processed'' (e # ancestors) then None
      else case priceText (Element e kids) of
        None \<Rightarrow> None
      | Some text \<Rightarrow>
         (case priceAmount text of
            None \<Rightarrow> None
          | Some amount \<Rightarrow>
             (case formatTimeFromMoney st amount (hourlyRate st) of
                None \<Rightarrow> None
              | Some timeStr \<Rightarrow>
                  if timeStr = [] then None
                  else if querySelector ''mt-annotation'' (Element e kids) \<noteq> None then None
                  else Some (Element
                    (e\<lparr> attributes := setAttribute ''data-mt-processed'' (str ''true'') (attributes e) \<rparr>)
                    (kids @ [Element \<lparr> tagName = ''SPAN'', classList = [''mt-annotation''],
                                      attributes = [] \<rparr>
                               [Text (str '' (~'' @ timeStr @ str '')'')]])))))"

section \<open>Evaluation on concrete inputs\<close>

text \<open>
  Closed terms are evaluated by rewriting with the defining equations. The weak congruence
  rule for \<open>map\<close> keeps the simplifier out of the mapped function until the list
  is known, which makes the rewriting follow the order of evaluation.
\<close>

lemma map_weak_cong: "xs = ys \<Longrightarrow> map f xs = map f ys" by simp

lemmas char_defs = str_def slice_def isWordBoundary_def isWordChar_def isDigit_def
  isWhiteSpace_def canonicalize_def clearGroups_def

lemmas eval_regex = rmatch.simps exec.simps regex_defs char_defs

lemmas eval_amount = amountFromMatch_def numStr_def numCapture_def sufStr_def parseFloat_def digitsValue_def
  exponentPart_def multiplier_def SCALE_MAP_def toLowerCase_def

lemmas eval_format = timeParts_def totalMinutes_def schedule_defs renderPart_def numToString.simps

lemmas eval_build = buildAnnotatedFragment_def buildLoop.simps addMatch_def wrapper_def endsWithSpace_def

lemma exec_pay_0: "exec MONEY_regex (str ''Pay $5 now'') 0 =
  Some \<lparr>index = 4, lastIndex = 7, matched = str ''$5 '', groups = [(''num1'', str ''5''), (''sym'', str ''$'')]\<rparr>"
  by (simp add: eval_regex cong: map_weak_cong list.case_cong_weak)

lemma exec_pay_7: "exec MONEY_regex (str ''Pay $5 now'') 7 = None"
  by (simp add: eval_regex cong: map_weak_cong list.case_cong_weak)


lemma format_5: "formatTimeFromMoney DEFAULT (Num 5) (Num 15) = Some (str ''20min'')"
  by (simp add: eval_format str_def)

lemma DEFAULT_simps:
  "hourlyRate DEFAULT = Num 15" "displayMode DEFAULT = ''inline''"
  "hoursPerDay DEFAULT = 8" "daysPerWeek DEFAULT = 5"
  by (simp_all add: DEFAULT_def)

section \<open>What a match captures\<close>




















lemma execAll_spans:
  "m \<in> set (execAll s i) \<Longrightarrow> i \<le> index m \<and> index m < lastIndex m \<and> lastIndex m \<le> length s"
proof (induction s i rule: execAll.induct)
  case (1 s i)
  show ?case
  proof (cases "exec MONEY_regex s i")
    case None
    with "1.prems" show ?thesis by (simp add: execAll.simps[of s i])
  next
    case (Some m0)
    from exec_Some[OF Some] have p: "i \<le> index m0" "index m0 < lastIndex m0" "lastIndex m0 \<le> length s"
      by (simp_all add: minLen_MONEY)
    from "1.prems" Some consider "m = m0" | "m \<in> set (execAll s (lastIndex m0))"
      by (auto simp: execAll.simps[of s i])
    then show ?thesis
    proof cases
      case 1
      then show ?thesis using p by simp
    next
      case 2
      from "1.IH"[OF Some 2] p show ?thesis by simp
    qed
  qed
qed

lemma execAll_sorted: "sorted_wrt (\<lambda>m m'. lastIndex m \<le> index m') (execAll s i)"
proof (induction s i rule: execAll.induct)
  case (1 s i)
  show ?case
  proof (cases "exec MONEY_regex s i")
    case None
    then show ?thesis by (simp add: execAll.simps[of s i])
  next
    case (Some m0)
    have "\<forall>m \<in> set (execAll s (lastIndex m0)). lastIndex m0 \<le> index m"
      using execAll_spans by blast
    then show ?thesis using "1.IH"[OF Some] Some by (simp add: execAll.simps[of s i])
  qed
qed

lemma buildLoop_execAll:
  "buildLoop st s i acc = foldl (\<lambda>acc m. addMatch st s m acc) acc (execAll s i)"
proof (induction st s i acc rule: buildLoop.induct)
  case (1 st s i acc)
  show ?case
  proof (cases "exec MONEY_regex s i")
    case None
    then show ?thesis by (simp add: buildLoop.simps[of st s i] execAll.simps[of s i])
  next
    case (Some m)
    then show ?thesis using "1.IH"[OF Some]
      by (simp add: buildLoop.simps[of st s i] execAll.simps[of s i])
  qed
qed

lemma execAll_pay: "execAll (str ''Pay $5 now'') 0 =
  [\<lparr>index = 4, lastIndex = 7, matched = str ''$5 '', groups = [(''num1'', str ''5''), (''sym'', str ''$'')]\<rparr>]"
  by (simp add: execAll.simps exec_pay_0 exec_pay_7 cong: option.case_cong_weak)


section \<open>Scenarios\<close>

text \<open>Trees used in the scenarios.\<close>

definition BODY :: element where
  "BODY = \<lparr>tagName = ''BODY'', classList = [], attributes = []\<rparr>"

definition inlineWrapper :: "jsstr \<Rightarrow> jsstr \<Rightarrow> node" where
  "inlineWrapper money note =
     Element \<lparr>tagName = ''SPAN'', classList = [''mt-wrapper''],
              attributes = [(''data-mt-processed'', str ''true'')]\<rparr>
       [Text money,
        Element \<lparr>tagName = ''SPAN'', classList = [''mt-annotation''], attributes = []\<rparr>
          [Text note]]"

definition priceSpan :: "string \<Rightarrow> node list \<Rightarrow> node" where
  "priceSpan cls kids = Element \<lparr>tagName = ''SPAN'', classList = [cls], attributes = []\<rparr> kids"

lemmas eval_dom = BODY_def inlineWrapper_def SKIP_TAGS_def closest_def hasAttribute_def trim_def test_def

lemma build_pay_now:
  "buildAnnotatedFragment DEFAULT (str ''Pay $5 now'') =
     [Text (str ''Pay ''), inlineWrapper (str ''$5 '') (str ''(20min) ''), Text (str ''now'')]"
  by (simp add: eval_build eval_regex eval_amount eval_format Let_def inlineWrapper_def
        cong: option.case_cong_weak map_weak_cong list.case_cong_weak)

lemma build_run_on:
  "buildAnnotatedFragment DEFAULT (str ''$5USD 7'') =
     [inlineWrapper (str ''$5'') (str '' (20min) ''), Text (str ''USD 7'')]"
  by (simp add: eval_build eval_regex eval_amount eval_format Let_def inlineWrapper_def
        cong: option.case_cong_weak map_weak_cong list.case_cong_weak)

lemma build_usd_7:
  "buildAnnotatedFragment DEFAULT (str ''USD 7'') = [inlineWrapper (str ''USD 7'') (str '' (28min) '')]"
  by (simp add: eval_build eval_regex eval_amount eval_format Let_def inlineWrapper_def
        cong: option.case_cong_weak map_weak_cong list.case_cong_weak)

lemma build_zero:
  "buildAnnotatedFragment DEFAULT (str ''$0'') = [Text (str ''$0'')]"
  by (simp add: eval_build eval_regex eval_amount eval_format Let_def
        cong: option.case_cong_weak map_weak_cong list.case_cong_weak)

lemma tests:
  "test MONEY_regex (str ''Pay $5 now'')" "test MONEY_regex (str ''$5USD 7'')"
  "test MONEY_regex (str ''USD 7'')" "test MONEY_regex (str ''$0'')"
  "\<not> test MONEY_regex (str ''Pay '')" "\<not> test MONEY_regex (str ''now'')"
  by (simp_all add: test_def eval_regex cong: map_weak_cong list.case_cong_weak)

lemma accepts:
  "acceptNode [BODY] (str ''Pay $5 now'')" "acceptNode [BODY] (str ''$5USD 7'')"
  "acceptNode [BODY] (str ''USD 7'')" "acceptNode [BODY] (str ''$0'')"
  "acceptNode [BODY] (str ''Pay '')" "acceptNode [BODY] (str ''now'')"
  by (simp_all add: eval_dom str_def isWhiteSpace_def)

lemma process_body:
  "test MONEY_regex t \<Longrightarrow> buildAnnotatedFragment st t \<noteq> [] \<Longrightarrow>
     processTextNode st [BODY] (Text t) = Some (buildAnnotatedFragment st t)"
  by (simp add: BODY_def SKIP_TAGS_def closest_def hasAttribute_def)

section \<open>Properties of the scan\<close>

lemma processTextNode_no_match:
  "\<not> test MONEY_regex t \<Longrightarrow> processTextNode st anc (Text t) = None"
  by (cases anc) auto

lemma scan_no_match:
  "(\<forall>t \<in> set (textNodes anc n). \<not> test MONEY_regex t) \<Longrightarrow> scan st anc n = ([n], 0)"
proof (induction n arbitrary: anc)
  case (Text t)
  then show ?case by (auto simp: processTextNode_no_match)
next
  case (Element e kids)
  have k: "scan st (e # anc) k = ([k], 0)" if "k \<in> set kids" for k
    using Element.IH[OF that, of "e # anc"] Element.prems that by auto
  have "concat (map (\<lambda>k. fst (scan st (e # anc) k)) kids) = concat (map (\<lambda>k. [k]) kids)"
    using k by (intro arg_cong[where f = concat] map_cong) auto
  moreover have "concat (map (\<lambda>k. [k]) kids) = kids" by (induction kids) auto
  moreover have "sum_list (map (\<lambda>k. snd (scan st (e # anc) k)) kids) = 0"
    using k by (simp add: sum_list_eq_0_iff)
  ultimately show ?case by simp
qed

lemma acceptNode_processed: "closest ''data-mt-processed'' anc \<Longrightarrow> \<not> acceptNode anc t"
  by (cases anc) auto

lemma textNodes_processed:
  "closest ''data-mt-processed'' anc \<Longrightarrow> textNodes anc n = []"
proof (induction n arbitrary: anc)
  case (Text t)
  then show ?case by (simp add: acceptNode_processed)
next
  case (Element e kids)
  have "closest ''data-mt-processed'' (e # anc)" using Element.prems by (simp add: closest_def)
  then show ?case using Element.IH by simp
qed

lemma scan_processed:
  "closest ''data-mt-processed'' anc \<Longrightarrow> scan st anc n = ([n], 0)"
  by (rule scan_no_match) (simp add: textNodes_processed)

lemma wrapper_marked:
  "\<exists>e kids. wrapper st fullMatch timeStr = Element e kids \<and> hasAttribute e ''data-mt-processed''"
  by (simp add: wrapper_def Let_def hasAttribute_def)

text \<open>
  A node of a fragment is \<open>marked\<close> when it is a text node or carries the processed
  marker.
\<close>

fun marked :: "node \<Rightarrow> bool" where
  "marked (Text t) = True"
| "marked (Element e kids) = hasAttribute e ''data-mt-processed''"

lemma addMatch_marked:
  "\<forall>n \<in> set (fst acc). marked n \<Longrightarrow> \<forall>n \<in> set (fst (addMatch st s m acc)). marked n"
  using wrapper_marked[of st "matched m"]
  by (auto simp: addMatch_def Let_def split: option.splits) (metis marked.simps(2))+

lemma foldl_addMatch_marked:
  "\<forall>n \<in> set (fst acc). marked n \<Longrightarrow>
     \<forall>n \<in> set (fst (foldl (\<lambda>acc m. addMatch st s m acc) acc ms)). marked n"
proof (induction ms arbitrary: acc)
  case Nil
  then show ?case by simp
next
  case (Cons m ms)
  show ?case using Cons.IH[OF addMatch_marked[OF Cons.prems]] by simp
qed

lemma buildAnnotatedFragment_marked:
  "n \<in> set (buildAnnotatedFragment st s) \<Longrightarrow> marked n"
  using foldl_addMatch_marked[of "([], 0)" st s "execAll s 0"]
  by (auto simp: buildAnnotatedFragment_def Let_def buildLoop_execAll split: if_splits)

lemma scan_wrapper:
  "scan st [BODY] (inlineWrapper a b) = ([inlineWrapper a b], 0)"
  by (simp add: inlineWrapper_def closest_def hasAttribute_def)

lemma process_pay_now:
  "processDocument DEFAULT [] (Element BODY [Text (str ''Pay $5 now'')]) =
     (Element BODY [Text (str ''Pay ''), inlineWrapper (str ''$5 '') (str ''(20min) ''),
                    Text (str ''now'')], 1)"
  by (simp add: accepts tests process_body build_pay_now
        del: acceptNode.simps processTextNode.simps)

lemma addMatch_nonempty: "fst (addMatch st s m acc) \<noteq> []"
  by (simp add: addMatch_def Let_def split: option.splits)

lemma foldl_addMatch_nonempty:
  "fst acc \<noteq> [] \<Longrightarrow> fst (foldl (\<lambda>acc m. addMatch st s m acc) acc ms) \<noteq> []"
proof (induction ms arbitrary: acc)
  case Nil
  then show ?case by simp
next
  case (Cons m ms)
  show ?case using Cons.IH[OF addMatch_nonempty] by simp
qed

lemma buildAnnotatedFragment_nonempty:
  assumes "test MONEY_regex s"
  shows "buildAnnotatedFragment st s \<noteq> []"
proof -
  from assms obtain m where m: "exec MONEY_regex s 0 = Some m" by (auto simp: test_def)
  then have "execAll s 0 = m # execAll s (lastIndex m)" by (simp add: execAll.simps[of s 0])
  then have "fst (buildLoop st s 0 ([], 0)) \<noteq> []"
    using foldl_addMatch_nonempty[OF addMatch_nonempty]
    by (simp add: buildLoop_execAll)
  then show ?thesis by (auto simp: buildAnnotatedFragment_def Let_def)
qed

definition examplePrice :: node where
  "examplePrice = priceSpan ''a-price''
     [priceSpan ''a-price-symbol'' [Text (str ''$'')],
      priceSpan ''a-price-whole'' [Text (str ''49'')],
      priceSpan ''a-price-fraction'' [Text (str ''99'')]]"

lemmas eval_price = examplePrice_def priceSpan_def priceText_def subText_def querySelector_def
  priceAmount_def PRICE_regex_def

section \<open>Claims\<close>

text \<open>
  C1, as stated, fails. With the default settings the text \<open>$5USD 7\<close> is annotated at
  \<open>$5\<close> only, because inside the text no word boundary separates \<open>5\<close> from
  \<open>USD\<close>; the rest \<open>USD 7\<close> becomes a text node of its own, where the pattern does
  match, and the second pass wraps it. And the text \<open>$0\<close>, whose amount is not
  convertible, is left as a plain text node that every pass matches and replaces again.
\<close>

theorem second_pass_counterexample:
  "processDocument DEFAULT [] (Element BODY [Text (str ''$5USD 7'')]) =
     (Element BODY [inlineWrapper (str ''$5'') (str '' (20min) ''), Text (str ''USD 7'')], 1)
   \<and> processDocument DEFAULT []
       (Element BODY [inlineWrapper (str ''$5'') (str '' (20min) ''), Text (str ''USD 7'')]) =
     (Element BODY [inlineWrapper (str ''$5'') (str '' (20min) ''),
                    inlineWrapper (str ''USD 7'') (str '' (28min) '')], 1)
   \<and> processDocument DEFAULT [] (Element BODY [Text (str ''$0'')]) =
     (Element BODY [Text (str ''$0'')], 1)"
proof -
  have w: "scan DEFAULT [BODY] (inlineWrapper (str ''$5'') (str '' (20min) ''))
            = ([inlineWrapper (str ''$5'') (str '' (20min) '')], 0)"
    by (simp add: inlineWrapper_def closest_def hasAttribute_def)
  show ?thesis
    by (simp add: accepts tests process_body build_run_on build_usd_7 build_zero w
          del: acceptNode.simps processTextNode.simps)
qed

text \<open>
  C1, amended. Every element the annotation builder creates carries
  \<open>data-mt-processed\<close>; the walker collects no text node inside it, and a later scan
  leaves it as it is, whatever the ancestors and the settings. If, in the tree left by a
  first pass, no text node the walker collects contains a match, then a second pass
  returns that tree and replaces nothing.
\<close>

theorem second_pass_without_matches:
  "(\<forall>text st' ancestors' e kids. Element e kids \<in> set (buildAnnotatedFragment st text)
       \<longrightarrow> hasAttribute e ''data-mt-processed''
         \<and> textNodes ancestors' (Element e kids) = []
         \<and> scan st' ancestors' (Element e kids) = ([Element e kids], 0))
   \<and> ((\<forall>t \<in> set (walkerNodes ancestors (fst (processDocument st ancestors doc))).
          \<not> test MONEY_regex t)
       \<longrightarrow> processDocument st ancestors (fst (processDocument st ancestors doc))
            = (fst (processDocument st ancestors doc), 0))"
proof -
  have a: "hasAttribute e ''data-mt-processed'' \<and> textNodes anc' (Element e kids) = []
      \<and> scan st' anc' (Element e kids) = ([Element e kids], 0)"
    if "Element e kids \<in> set (buildAnnotatedFragment st s)" for s st' anc' e kids
  proof -
    from buildAnnotatedFragment_marked[OF that] have m: "hasAttribute e ''data-mt-processed''" by simp
    then have c: "closest ''data-mt-processed'' (e # anc')" by (simp add: closest_def)
    then have t: "textNodes anc' (Element e kids) = []" using textNodes_processed by simp
    have "scan st' anc' (Element e kids) = ([Element e kids], 0)"
      by (rule scan_no_match) (simp only: t list.set ball_empty)
    then show ?thesis using m t by simp
  qed
  have b: "processDocument st anc d = (d, 0)"
    if "\<forall>t \<in> set (walkerNodes anc d). \<not> test MONEY_regex t" for anc d
  proof (cases d)
    case (Text t)
    then show ?thesis by simp
  next
    case (Element e kids)
    have "scan st anc d = ([d], 0)"
      using that Element by (intro scan_no_match) simp
    then show ?thesis using Element by simp
  qed
  show ?thesis using a b by blast
qed

text \<open>
  The amended C1 at the tree of \<open>Pay $5 now\<close>: the first pass leaves the text nodes
  \<open>Pay \<close> and \<open>now\<close> around the wrapper, neither contains a match, and the second
  pass changes nothing.
\<close>

theorem second_pass_without_matches_witness:
  "fst (processDocument DEFAULT [] (Element BODY [Text (str ''Pay $5 now'')])) =
     Element BODY [Text (str ''Pay ''), inlineWrapper (str ''$5 '') (str ''(20min) ''),
                   Text (str ''now'')]
   \<and> walkerNodes [] (Element BODY [Text (str ''Pay ''),
         inlineWrapper (str ''$5 '') (str ''(20min) ''), Text (str ''now'')])
       = [str ''Pay '', str ''now'']
   \<and> \<not> test MONEY_regex (str ''Pay '') \<and> \<not> test MONEY_regex (str ''now'')
   \<and> processDocument DEFAULT [] (Element BODY [Text (str ''Pay ''),
         inlineWrapper (str ''$5 '') (str ''(20min) ''), Text (str ''now'')])
       = (Element BODY [Text (str ''Pay ''), inlineWrapper (str ''$5 '') (str ''(20min) ''),
            Text (str ''now'')], 0)"
proof -
  have w: "textNodes [BODY] (inlineWrapper (str ''$5 '') (str ''(20min) '')) = []"
    by (simp add: inlineWrapper_def closest_def hasAttribute_def)
  have n: "walkerNodes [] (Element BODY [Text (str ''Pay ''),
         inlineWrapper (str ''$5 '') (str ''(20min) ''), Text (str ''now'')])
       = [str ''Pay '', str ''now'']"
    by (simp add: accepts w del: acceptNode.simps)
  show ?thesis
    using second_pass_without_matches[of DEFAULT "[]" "Element BODY [Text (str ''Pay $5 now'')]"]
    by (simp add: process_pay_now n tests del: processDocument.simps walkerNodes.simps)
qed






text \<open>
  C4, as stated, fails on the sentinel: for a valid input below one minute the formatter
  of this revision returns \<open><1m\<close>, not \<open><1 min\<close>.
\<close>

theorem formatTime_sentinel_counterexample:
  "0 < (1 / 10 :: real) \<and> 0 < (15 :: real) \<and> \<lfloor>totalMinutes (1 / 10) 15\<rfloor> = 0
   \<and> formatTimeFromMoney DEFAULT (Num (1 / 10)) (Num 15) = Some (str ''<1m'')
   \<and> formatTimeFromMoney DEFAULT (Num (1 / 10)) (Num 15) \<noteq> Some (str ''<1 min'')"
  by (simp add: totalMinutes_def timeParts_def decompose_zero str_def)

text \<open>
  C4, amended. The formatter returns \<open>null\<close> exactly when the amount or the rate is
  not finite or not positive; for a valid input whose floored total of minutes is zero it
  returns the sentinel \<open><1m\<close>; and it never returns the empty string.
\<close>

theorem formatTime_null_iff_invalid:
  "(formatTimeFromMoney st amount rate = None \<longleftrightarrow>
      \<not> isFinite amount \<or> lessEqZero amount \<or> \<not> isFinite rate \<or> lessEqZero rate)
   \<and> (\<forall>a r. amount = Num a \<and> rate = Num r \<and> 0 < a \<and> 0 < r \<and> \<lfloor>totalMinutes a r\<rfloor> = 0
        \<longrightarrow> formatTimeFromMoney st amount rate = Some (str ''<1m''))
   \<and> formatTimeFromMoney st amount rate \<noteq> Some []"
proof -
  have a: "formatTimeFromMoney st amount rate = None \<longleftrightarrow>
      \<not> isFinite amount \<or> lessEqZero amount \<or> \<not> isFinite rate \<or> lessEqZero rate"
    by (cases amount; cases rate) (auto simp: Let_def)
  have b: "formatTimeFromMoney st (Num a) (Num r) = Some (str ''<1m'')"
    if "0 < a" "0 < r" "\<lfloor>totalMinutes a r\<rfloor> = 0" for a r
    using that by (simp add: Let_def timeParts_def decompose_zero)
  have c: "formatTimeFromMoney st amount rate \<noteq> Some []"
  proof (cases "formatTimeFromMoney st amount rate")
    case None then show ?thesis by simp
  next
    case (Some s)
    have "join sep (map renderPart ps) \<noteq> []" if "ps \<noteq> []" for sep ps
      using that by (intro join_nonempty) (auto simp: renderPart_def numToString_nonempty)
    then show ?thesis
      by (cases amount; cases rate) (auto simp: Let_def str_def split: if_splits)
  qed
  show ?thesis using a b c by blast
qed

text \<open>
  The amended C4 at a zero amount, a \<open>NaN\<close> amount, an infinite rate, and at the
  amount 0.1 with rate 15 (0.4 minutes).
\<close>

theorem formatTime_null_iff_invalid_witness:
  "formatTimeFromMoney DEFAULT (Num 0) (Num 15) = None
   \<and> formatTimeFromMoney DEFAULT NaN (Num 15) = None
   \<and> formatTimeFromMoney DEFAULT (Num 5) PosInfinity = None
   \<and> \<lfloor>totalMinutes (1 / 10) 15\<rfloor> = 0
   \<and> formatTimeFromMoney DEFAULT (Num (1 / 10)) (Num 15) = Some (str ''<1m'')"
proof -
  have f: "\<lfloor>totalMinutes (1 / 10) 15\<rfloor> = 0" by (simp add: totalMinutes_def)
  have "formatTimeFromMoney DEFAULT (Num (1 / 10)) (Num 15) = Some (str ''<1m'')"
    using formatTime_null_iff_invalid[of DEFAULT "Num (1 / 10)" "Num 15",
        THEN conjunct2, THEN conjunct1, rule_format, of "1 / 10" 15] f by simp
  then show ?thesis
    using formatTime_null_iff_invalid[of DEFAULT "Num 0" "Num 15"]
      formatTime_null_iff_invalid[of DEFAULT NaN "Num 15"]
      formatTime_null_iff_invalid[of DEFAULT "Num 5" PosInfinity] f
    by simp
qed

text \<open>
  C5, as stated, fails on the string: the parts are joined with a single space, so the
  result is not \<open>1w3d2h\<close>.
\<close>

theorem formatTime_thousand_counterexample:
  "formatTimeFromMoney (DEFAULT\<lparr>hourlyRate := Num 15, hoursPerDay := 8, daysPerWeek := 5\<rparr>)
      (Num 1000) (Num 15) \<noteq> Some (str ''1w3d2h'')"
  by (simp add: timeParts_def totalMinutes_def schedule_defs renderPart_def numToString.simps str_def)

text \<open>
  C5, amended. With amount 1000, hourly rate 15, 8 hours a day and 5 days a week, a work
  day has 480 minutes and a work week 2400; the total is 4000 minutes; the loop emits
  1 week, 3 days and 2 hours and leaves 40 minutes; the string is \<open>1w 3d 2h\<close>.
\<close>

theorem formatTime_thousand_at_fifteen:
  "workMinutesPerDay DEFAULT = 480 \<and> workMinutesPerWeek DEFAULT = 2400
   \<and> totalMinutes 1000 15 = 4000
   \<and> decompose (UNITS DEFAULT) 4000 [] =
        ([(1, \<lparr>short = ''w'', minutes = 2400\<rparr>), (3, \<lparr>short = ''d'', minutes = 480\<rparr>),
          (2, \<lparr>short = ''h'', minutes = 60\<rparr>)], 40)
   \<and> formatTimeFromMoney DEFAULT (Num 1000) (Num 15) = Some (str ''1w 3d 2h'')"
  by (simp add: timeParts_def totalMinutes_def schedule_defs renderPart_def numToString.simps str_def)

text \<open>
  C6. For every input string the spans of the matches the annotation loop sees are
  ordered so that each ends no later than the next begins; their start offsets are
  strictly increasing; each is non-empty and inside the string; and they are pairwise
  disjoint. The loop of the annotation builder runs over exactly this sequence.
\<close>

theorem matchSpans_disjoint_sorted:
  "sorted_wrt (\<lambda>p q. snd p \<le> fst q) (matchSpans s)
   \<and> sorted_wrt (\<lambda>p q. fst p < fst q) (matchSpans s)
   \<and> (\<forall>p \<in> set (matchSpans s). fst p < snd p \<and> snd p \<le> length s)
   \<and> (\<forall>i j. i < j \<and> j < length (matchSpans s) \<longrightarrow>
         {fst (matchSpans s ! i) ..< snd (matchSpans s ! i)}
           \<inter> {fst (matchSpans s ! j) ..< snd (matchSpans s ! j)} = {})
   \<and> buildLoop st s 0 acc = foldl (\<lambda>acc m. addMatch st s m acc) acc (execAll s 0)"
proof -
  have a: "sorted_wrt (\<lambda>p q. snd p \<le> fst q) (matchSpans s)"
    using execAll_sorted[of s 0] by (simp add: matchSpans_def sorted_wrt_map)
  have b: "\<forall>p \<in> set (matchSpans s). fst p < snd p \<and> snd p \<le> length s"
    using execAll_spans[of _ s 0] by (auto simp: matchSpans_def)
  have c: "sorted_wrt (\<lambda>p q. fst p < fst q) (matchSpans s)"
  proof (rule sorted_wrt_mono_rel[OF _ a])
    fix p q assume "p \<in> set (matchSpans s)" "q \<in> set (matchSpans s)" "snd p \<le> fst q"
    then show "fst p < fst q" using b by fastforce
  qed
  have d: "{fst (matchSpans s ! i) ..< snd (matchSpans s ! i)}
           \<inter> {fst (matchSpans s ! j) ..< snd (matchSpans s ! j)} = {}"
    if "i < j" "j < length (matchSpans s)" for i j
  proof -
    have "snd (matchSpans s ! i) \<le> fst (matchSpans s ! j)"
      using sorted_wrt_nth_less[OF a that] .
    then show ?thesis by auto
  qed
  show ?thesis using a b c d buildLoop_execAll[of st s 0 acc] by blast
qed

text \<open>
  C6 at \<open>Pay $5 now\<close>: the single span is \<open>[4, 7)\<close>.
\<close>

theorem matchSpans_disjoint_sorted_witness:
  "matchSpans (str ''Pay $5 now'') = [(4, 7)]
   \<and> fst (4::nat, 7::nat) < snd (4::nat, 7::nat)
   \<and> snd (4::nat, 7::nat) \<le> length (str ''Pay $5 now'')"
proof -
  have "matchSpans (str ''Pay $5 now'') = [(4, 7)]"
    by (simp add: matchSpans_def execAll_pay)
  moreover have "length (str ''Pay $5 now'') = 10"
    by (simp add: str_def)
  ultimately show ?thesis
    using matchSpans_disjoint_sorted[of "str ''Pay $5 now''" DEFAULT "([], 0)"] by simp
qed

text \<open>
  C7. With the inline display mode and the hourly rate 15, the amount 5 is 20 minutes and
  the formatter yields \<open>20min\<close>. The match in \<open>Pay $5 now\<close> is \<open>$5 \<close> with its
  trailing space, so the annotation gets no leading space. The fragment is the text
  \<open>Pay \<close>, the wrapper and the text \<open>now\<close>, and its text content is \<open>Pay \<close>
  followed by \<open>$5 (20min) now\<close>: one space on each side of the parenthesis.
\<close>

theorem pay_five_now_inline:
  "displayMode DEFAULT = ''inline'' \<and> hourlyRate DEFAULT = Num 15
   \<and> totalMinutes 5 15 = 20
   \<and> formatTimeFromMoney DEFAULT (Num 5) (hourlyRate DEFAULT) = Some (str ''20min'')
   \<and> buildAnnotatedFragment DEFAULT (str ''Pay $5 now'') =
        [Text (str ''Pay ''), inlineWrapper (str ''$5 '') (str ''(20min) ''), Text (str ''now'')]
   \<and> concat (map textContent (buildAnnotatedFragment DEFAULT (str ''Pay $5 now'')))
        = str ''Pay '' @ str ''$5 (20min) now''"
  by (simp add: build_pay_now DEFAULT_simps format_5 del: formatTimeFromMoney.simps)
     (simp add: inlineWrapper_def str_def totalMinutes_def)

text \<open>
  C8, as stated, fails where the fragment has the content of the original text: for the
  text \<open>$0\<close> the fragment is one text node \<open>$0\<close>, and \<open>processTextNode\<close> still
  replaces the original node by it.
\<close>

theorem identical_content_counterexample:
  "buildAnnotatedFragment DEFAULT (str ''$0'') = [Text (str ''$0'')]
   \<and> concat (map textContent (buildAnnotatedFragment DEFAULT (str ''$0''))) = str ''$0''
   \<and> processTextNode DEFAULT [BODY] (Text (str ''$0'')) = Some [Text (str ''$0'')]"
  by (simp add: build_zero tests process_body del: processTextNode.simps)

text \<open>
  C8, amended. \<open>processTextNode\<close> leaves the tree alone when the text contains no
  match and when the fragment is empty. Whenever it replaces the node, the fragment is
  the one built for the text, it is not empty and the text contains a match; and below a
  parent that is not skipped, processed or ignored, a text with a match is always
  replaced by its fragment, whatever the fragment's content.
\<close>

theorem processTextNode_replaces_iff:
  "(\<not> test MONEY_regex t \<longrightarrow> processTextNode st anc (Text t) = None)
   \<and> (buildAnnotatedFragment st t = [] \<longrightarrow> processTextNode st anc (Text t) = None)
   \<and> (\<forall>frag. processTextNode st anc (Text t) = Some frag \<longrightarrow>
         frag = buildAnnotatedFragment st t \<and> frag \<noteq> [] \<and> test MONEY_regex t)
   \<and> (\<forall>parent outer. anc = parent # outer \<and> tagName parent \<notin> set SKIP_TAGS
         \<and> \<not> closest ''data-mt-processed'' anc \<and> \<not> closest ''data-mt-ignore'' anc
         \<and> test MONEY_regex t
         \<longrightarrow> processTextNode st anc (Text t) = Some (buildAnnotatedFragment st t))"
proof -
  have a: "\<not> test MONEY_regex t \<longrightarrow> processTextNode st anc (Text t) = None"
    by (simp add: processTextNode_no_match)
  have b: "buildAnnotatedFragment st t = [] \<longrightarrow> processTextNode st anc (Text t) = None"
    by (cases anc) (auto simp: Let_def)
  have c: "frag = buildAnnotatedFragment st t \<and> frag \<noteq> [] \<and> test MONEY_regex t"
    if "processTextNode st anc (Text t) = Some frag" for frag
    using that by (cases anc) (auto simp: Let_def split: if_splits)
  have d: "processTextNode st anc (Text t) = Some (buildAnnotatedFragment st t)"
    if "anc = parent # outer" "tagName parent \<notin> set SKIP_TAGS"
      "\<not> closest ''data-mt-processed'' anc" "\<not> closest ''data-mt-ignore'' anc"
      "test MONEY_regex t" for parent outer
    using that buildAnnotatedFragment_nonempty[OF that(5), of st] by (simp add: Let_def)
  from c have c': "\<forall>frag. processTextNode st anc (Text t) = Some frag \<longrightarrow>
         frag = buildAnnotatedFragment st t \<and> frag \<noteq> [] \<and> test MONEY_regex t"
    by (intro allI impI)
  from d have d': "\<forall>parent outer. anc = parent # outer \<and> tagName parent \<notin> set SKIP_TAGS
         \<and> \<not> closest ''data-mt-processed'' anc \<and> \<not> closest ''data-mt-ignore'' anc
         \<and> test MONEY_regex t
         \<longrightarrow> processTextNode st anc (Text t) = Some (buildAnnotatedFragment st t)"
    by (intro allI impI) (elim conjE)
  show ?thesis by (intro conjI a b c' d')
qed

text \<open>
  The amended C8 below \<open>BODY\<close>: \<open>now\<close> is left alone, \<open>Pay $5 now\<close> is replaced.
\<close>

theorem processTextNode_replaces_iff_witness:
  "\<not> test MONEY_regex (str ''now'')
   \<and> processTextNode DEFAULT [BODY] (Text (str ''now'')) = None
   \<and> test MONEY_regex (str ''Pay $5 now'')
   \<and> processTextNode DEFAULT [BODY] (Text (str ''Pay $5 now'')) =
       Some [Text (str ''Pay ''), inlineWrapper (str ''$5 '') (str ''(20min) ''), Text (str ''now'')]"
proof -
  have p: "tagName BODY \<notin> set SKIP_TAGS" "\<not> closest ''data-mt-processed'' [BODY]"
    "\<not> closest ''data-mt-ignore'' [BODY]"
    by (simp_all add: eval_dom)
  note A = processTextNode_replaces_iff[of "str ''now''" DEFAULT "[BODY]"]
  note B = processTextNode_replaces_iff[of "str ''Pay $5 now''" DEFAULT "[BODY]"]
  have 1: "processTextNode DEFAULT [BODY] (Text (str ''now'')) = None"
    using A[THEN conjunct1] tests(6) by (rule mp)
  have "processTextNode DEFAULT [BODY] (Text (str ''Pay $5 now'')) =
          Some (buildAnnotatedFragment DEFAULT (str ''Pay $5 now''))"
    using B[THEN conjunct2, THEN conjunct2, THEN conjunct2, rule_format, of BODY "[]"] p tests(1)
    by (simp del: processTextNode.simps)
  then show ?thesis using 1 tests by (simp add: build_pay_now del: processTextNode.simps)
qed

text \<open>
  C9. For a price element without a full-text node whose parts are the symbol \<open>$\<close>,
  the whole \<open>49\<close> and the fraction \<open>99\<close>, the helper rebuilds \<open>$4999\<close>, takes the
  first numeric run \<open>4999\<close> and parses the amount 4999; the annotation it appends is
  that of 4999 at the default rate.
\<close>

theorem structured_price_fallback:
  "querySelector ''a-offscreen'' examplePrice = None
   \<and> subText ''a-price-symbol'' examplePrice = str ''$''
   \<and> subText ''a-price-whole'' examplePrice = str ''49''
   \<and> subText ''a-price-fraction'' examplePrice = str ''99''
   \<and> priceText examplePrice = Some (str ''$4999'')
   \<and> map_option matched (exec PRICE_regex (str ''$4999'') 0) = Some (str ''4999'')
   \<and> priceAmount (str ''$4999'') = Some (Num 4999)
   \<and> processStructuredPrice DEFAULT [] examplePrice =
       Some (Element \<lparr>tagName = ''SPAN'', classList = [''a-price''],
                      attributes = [(''data-mt-processed'', str ''true'')]\<rparr>
         [priceSpan ''a-price-symbol'' [Text (str ''$'')],
          priceSpan ''a-price-whole'' [Text (str ''49'')],
          priceSpan ''a-price-fraction'' [Text (str ''99'')],
          Element \<lparr>tagName = ''SPAN'', classList = [''mt-annotation''], attributes = []\<rparr>
            [Text (str '' (~1mo 3w 4d)'')]])"
  by (simp add: eval_price eval_dom eval_regex parseFloat_def digitsValue_def exponentPart_def
        eval_format Let_def
        cong: option.case_cong_weak map_weak_cong list.case_cong_weak)




end
